theory Spec2Isabelle
  imports Complex_Main "HOL-Library.AList"
begin

section \<open>Language profiles and the suitability scorer\<close>

text \<open>
  The module \<^verbatim>\<open>src/languages/profile\<close> (class \<^verbatim>\<open>LanguageProfile\<close>, the four builtin
  profiles and \<^verbatim>\<open>findBestLanguageForRequirements\<close>). JavaScript numbers are modelled as
  exact reals: rounding, \<^verbatim>\<open>NaN\<close> and the infinities of IEEE doubles are outside the model.
\<close>

subsection \<open>Data\<close>

record characteristics =
  performance :: real
  memory :: real
  startupTime :: real
  ecosystem :: real
  concurrency :: real

text \<open>An entry \<^verbatim>\<open>{ name, score }\<close> of \<^verbatim>\<open>this.useCases\<close>.\<close>

record use_case =
  uc_name :: string
  uc_score :: real

text \<open>An entry \<^verbatim>\<open>{ purpose, maturity }\<close> of \<^verbatim>\<open>this.libraries\<close>.\<close>

record library =
  purpose :: string
  maturity :: real

record LanguageProfile =
  name :: string
  characteristics :: characteristics
  useCases :: "use_case list"
  libraries :: "(string \<times> library) list"

text \<open>
  A requirement on one dimension is an object \<^verbatim>\<open>{ weight: w }\<close>. The query object has
  each of its keys present or absent; an absent key reads as \<^verbatim>\<open>undefined\<close>, here \<open>None\<close>.
\<close>

record requirement =
  weight :: real

record requirements =
  q_performance :: "requirement option"
  q_memory :: "requirement option"
  q_startupTime :: "requirement option"
  q_ecosystem :: "requirement option"
  q_concurrency :: "requirement option"
  useCase :: "string option"
  useCaseWeight :: "real option"

record ScoreResult =
  language :: "string option"
  score :: real
  profile :: "LanguageProfile option"

subsection \<open>Construction\<close>

definition default_characteristics :: characteristics where
  "default_characteristics =
     \<lparr>performance = 5, memory = 5, startupTime = 5, ecosystem = 5, concurrency = 5\<rparr>"

text \<open>
  \<^verbatim>\<open>constructor(name, characteristics = {})\<close>: the defaults, then the caller's keys spread
  over them. The caller's partial object is the record update \<open>override\<close>.
\<close>

definition new_LanguageProfile ::
  "string \<Rightarrow> (characteristics \<Rightarrow> characteristics) \<Rightarrow> LanguageProfile" where
  "new_LanguageProfile n override =
     \<lparr>name = n, characteristics = override default_characteristics,
      useCases = [], libraries = []\<rparr>"

definition addUseCase :: "string \<Rightarrow> real \<Rightarrow> LanguageProfile \<Rightarrow> LanguageProfile" where
  "addUseCase u s p = p\<lparr>useCases := useCases p @ [\<lparr>uc_name = u, uc_score = s\<rparr>]\<rparr>"

definition addLibrary ::
  "string \<Rightarrow> string \<Rightarrow> real \<Rightarrow> LanguageProfile \<Rightarrow> LanguageProfile" where
  "addLibrary n pu m p =
     p\<lparr>libraries := AList.update n \<lparr>purpose = pu, maturity = m\<rparr> (libraries p)\<rparr>"

subsection \<open>\<^verbatim>\<open>matches\<close>\<close>

text \<open>
  One block \<^verbatim>\<open>if (requirements.d) { score += c * requirements.d.weight; totalWeight +=
  requirements.d.weight; }\<close>. An object is always truthy, so the test is presence.
\<close>

definition accumulate :: "real \<Rightarrow> requirement option \<Rightarrow> real \<times> real \<Rightarrow> real \<times> real" where
  "accumulate c d acc =
     (case d of
        None \<Rightarrow> acc
      | Some r \<Rightarrow> (fst acc + c * weight r, snd acc + weight r))"

text \<open>\<^verbatim>\<open>requirements.useCaseWeight || 1\<close>: \<^verbatim>\<open>undefined\<close> and \<^verbatim>\<open>0\<close> are both falsy.\<close>

definition useCaseWeight_or_1 :: "requirements \<Rightarrow> real" where
  "useCaseWeight_or_1 r =
     (case useCaseWeight r of
        None \<Rightarrow> 1
      | Some w \<Rightarrow> if w = 0 then 1 else w)"

text \<open>
  The use-case block. \<^verbatim>\<open>if (requirements.useCase)\<close> is false for an absent key and for
  the empty string; \<^verbatim>\<open>find\<close> returns the first entry of that name, an object (truthy),
  or \<^verbatim>\<open>undefined\<close>.
\<close>

definition accumulate_useCase ::
  "LanguageProfile \<Rightarrow> requirements \<Rightarrow> real \<times> real \<Rightarrow> real \<times> real" where
  "accumulate_useCase p r acc =
     (case useCase r of
        None \<Rightarrow> acc
      | Some u \<Rightarrow>
          if u = [] then acc
          else (case find (\<lambda>uc. uc_name uc = u) (useCases p) of
                  None \<Rightarrow> acc
                | Some uc \<Rightarrow>
                    (fst acc + uc_score uc * useCaseWeight_or_1 r,
                     snd acc + useCaseWeight_or_1 r)))"

definition matches :: "LanguageProfile \<Rightarrow> requirements \<Rightarrow> real" where
  "matches p r =
     (let acc = (0, 0);
          acc = accumulate (performance (characteristics p)) (q_performance r) acc;
          acc = accumulate (memory (characteristics p)) (q_memory r) acc;
          acc = accumulate (startupTime (characteristics p)) (q_startupTime r) acc;
          acc = accumulate (ecosystem (characteristics p)) (q_ecosystem r) acc;
          acc = accumulate (concurrency (characteristics p)) (q_concurrency r) acc;
          acc = accumulate_useCase p r acc
      in if snd acc > 0 then fst acc / snd acc else 0)"

subsection \<open>\<^verbatim>\<open>findBestLanguageForRequirements\<close>\<close>

text \<open>
  The registry \<^verbatim>\<open>this.profiles\<close> is the list of its entries in the order
  \<^verbatim>\<open>Object.entries\<close> yields them, which for keys that are not array indices is the order
  of insertion. The loop state is \<^verbatim>\<open>(bestScore, bestLanguage)\<close>, and each round replaces
  it when \<^verbatim>\<open>score > bestScore\<close>.
\<close>

fun best_loop ::
  "requirements \<Rightarrow> (string \<times> LanguageProfile) list \<Rightarrow> real \<times> string option
     \<Rightarrow> real \<times> string option" where
  "best_loop r [] best = best"
| "best_loop r ((n, p) # rest) best =
     best_loop r rest
       (if matches p r > fst best then (matches p r, Some n) else best)"

text \<open>
  \<^verbatim>\<open>profile: bestLanguage ? this.profiles[bestLanguage] : null\<close>: \<^verbatim>\<open>null\<close> and the empty
  string are falsy.
\<close>

definition findBestLanguageForRequirements ::
  "(string \<times> LanguageProfile) list \<Rightarrow> requirements \<Rightarrow> ScoreResult" where
  "findBestLanguageForRequirements registry r =
     (let best = best_loop r registry (- 1, None)
      in \<lparr>language = snd best,
          score = fst best,
          profile = (case snd best of
                       None \<Rightarrow> None
                     | Some n \<Rightarrow> if n = [] then None else map_of registry n)\<rparr>)"

subsection \<open>The builtin profiles\<close>

definition javascriptProfile :: LanguageProfile where
  "javascriptProfile =
     (addLibrary ''node-fetch'' ''http client'' 8
     (addLibrary ''express'' ''web server'' 9
     (addUseCase ''data'' 6
     (addUseCase ''scripting'' 9
     (addUseCase ''api'' 8
     (addUseCase ''web'' 9
     (new_LanguageProfile ''javascript''
        (\<lambda>c. c\<lparr>performance := 6, memory := 5, startupTime := 7, ecosystem := 9,
                concurrency := 6\<rparr>))))))))"

definition pythonProfile :: LanguageProfile where
  "pythonProfile =
     (addLibrary ''pandas'' ''data processing'' 9
     (addLibrary ''flask'' ''web server'' 8
     (addUseCase ''web'' 6
     (addUseCase ''scripting'' 9
     (addUseCase ''ml'' 10
     (addUseCase ''data'' 9
     (new_LanguageProfile ''python''
        (\<lambda>c. c\<lparr>performance := 5, memory := 6, startupTime := 6, ecosystem := 9,
                concurrency := 5\<rparr>))))))))"

definition goProfile :: LanguageProfile where
  "goProfile =
     (addLibrary ''gorm'' ''orm'' 7
     (addLibrary ''gin'' ''web framework'' 8
     (addUseCase ''system'' 8
     (addUseCase ''api'' 8
     (addUseCase ''concurrency'' 10
     (addUseCase ''performance'' 9
     (new_LanguageProfile ''go''
        (\<lambda>c. c\<lparr>performance := 8, memory := 8, startupTime := 9, ecosystem := 7,
                concurrency := 10\<rparr>))))))))"

definition rustProfile :: LanguageProfile where
  "rustProfile =
     (addLibrary ''serde'' ''serialization'' 9
     (addLibrary ''actix-web'' ''web server'' 8
     (addUseCase ''embedded'' 9
     (addUseCase ''concurrency'' 9
     (addUseCase ''performance'' 10
     (addUseCase ''system'' 10
     (new_LanguageProfile ''rust''
        (\<lambda>c. c\<lparr>performance := 10, memory := 9, startupTime := 7, ecosystem := 6,
                concurrency := 9\<rparr>))))))))"

definition profiles :: "(string \<times> LanguageProfile) list" where
  "profiles =
     [(''javascript'', javascriptProfile), (''python'', pythonProfile),
      (''go'', goProfile), (''rust'', rustProfile)]"

section \<open>The configuration store\<close>

text \<open>
  The module \<^verbatim>\<open>src/core/config.js\<close> (class \<^verbatim>\<open>Config\<close>). A document is JSON data
  together with \<^verbatim>\<open>undefined\<close>. An object \<open>JObj kvs\<close> is a plain object: \<open>kvs\<close> lists its
  own properties in the order of their creation (the enumeration order, for keys that are
  not array indices), and its prototype is \<^verbatim>\<open>Object.prototype\<close>, so it inherits the
  twelve names of \<open>Object_prototype\<close>. Every function below reads own properties through
  \<open>map_of\<close> and writes them through \<open>AList.update\<close>, so no key is ever stored twice.

  Two more values stand for what a document inherits: \<open>JNative k\<close> is a builtin function
  reached under the inherited name \<open>k\<close> (\<^verbatim>\<open>Object\<close> under \<^verbatim>\<open>constructor\<close> of a plain
  object, ...), and \<open>JObjectPrototype\<close> is the object \<^verbatim>\<open>Object.prototype\<close> itself,
  reached under \<^verbatim>\<open>__proto__\<close>. \<^verbatim>\<open>Object.prototype\<close> is taken as the runtime creates
  it.

  The limits of the model: an object whose prototype has been replaced is not represented;
  the properties of a builtin function are not represented; an array has its elements and
  \<^verbatim>\<open>length\<close>, a string its characters and \<^verbatim>\<open>length\<close>, and of the names that
  arrays and primitives inherit only those of \<open>Object_prototype\<close> are known. A read or a
  write that would leave these limits returns \<open>Inl NotModelled\<close>.
\<close>

subsection \<open>Values\<close>

datatype jv =
    JUndefined
  | JNull
  | JBool bool
  | JNum real
  | JStr string
  | JArr "jv list"
  | JObj "(string \<times> jv) list"
  | JNative string
  | JObjectPrototype

datatype error =
    TypeError
  | Error string
  | NotModelled

text \<open>The names of the own properties of \<^verbatim>\<open>Object.prototype\<close>, none of them enumerable.\<close>

definition Object_prototype :: "string list" where
  "Object_prototype =
     [''constructor'', ''__defineGetter__'', ''__defineSetter__'', ''hasOwnProperty'',
      ''__lookupGetter__'', ''__lookupSetter__'', ''isPrototypeOf'', ''propertyIsEnumerable'',
      ''toString'', ''valueOf'', ''__proto__'', ''toLocaleString'']"

text \<open>
  The local helper \<^verbatim>\<open>isObject(item)\<close>:
  \<^verbatim>\<open>item && typeof item === 'object' && !Array.isArray(item)\<close>. The type of a function
  is \<^verbatim>\<open>'function'\<close>.
\<close>

fun isObject :: "jv \<Rightarrow> bool" where
  "isObject (JObj kvs) = True"
| "isObject JObjectPrototype = True"
| "isObject v = False"


text \<open>The decimal name of an array index.\<close>

definition digit_char :: "nat \<Rightarrow> char" where
  "digit_char d = ''0123456789'' ! d"

fun string_of_nat :: "nat \<Rightarrow> string" where
  "string_of_nat n =
     (if n < 10 then [digit_char n]
      else string_of_nat (n div 10) @ [digit_char (n mod 10)])"

declare string_of_nat.simps [simp del]

definition index_of :: "string \<Rightarrow> nat \<Rightarrow> nat option" where
  "index_of k n = find (\<lambda>i. string_of_nat i = k) [0..<n]"

definition indexed :: "'a list \<Rightarrow> (string \<times> 'a) list" where
  "indexed xs = zip (map string_of_nat [0..<length xs]) xs"

text \<open>
  The own enumerable properties that \<^verbatim>\<open>{ ...v }\<close> copies, which are also the keys of
  \<^verbatim>\<open>Object.keys(v)\<close>: those of an object, the elements of an array and the characters
  of a string under their indices; nothing for \<^verbatim>\<open>undefined\<close>, \<^verbatim>\<open>null\<close>, a boolean, a
  number, a builtin function or \<^verbatim>\<open>Object.prototype\<close>.
\<close>

fun spread :: "jv \<Rightarrow> (string \<times> jv) list" where
  "spread (JObj kvs) = kvs"
| "spread (JArr xs) = indexed xs"
| "spread (JStr s) = indexed (map (\<lambda>c. JStr [c]) s)"
| "spread v = []"

text \<open>
  What a plain object finds under a name of \<open>Object_prototype\<close> that it does not own: the
  getter of \<^verbatim>\<open>__proto__\<close> returns its prototype, every other name holds a function.
\<close>

definition inherited :: "string \<Rightarrow> jv" where
  "inherited k = (if k = ''__proto__'' then JObjectPrototype else JNative k)"

text \<open>
  \<^verbatim>\<open>key in target\<close> and \<^verbatim>\<open>target[key]\<close> for an object \<open>target\<close>, along the prototype
  chain. The prototype of \<^verbatim>\<open>Object.prototype\<close> is \<^verbatim>\<open>null\<close>.
\<close>

fun has_prop :: "jv \<Rightarrow> string \<Rightarrow> bool" where
  "has_prop (JObj kvs) key =
     (case map_of kvs key of None \<Rightarrow> key \<in> set Object_prototype | Some v \<Rightarrow> True)"
| "has_prop JObjectPrototype key = (key \<in> set Object_prototype)"
| "has_prop v key = False"

fun get_prop :: "jv \<Rightarrow> string \<Rightarrow> jv" where
  "get_prop (JObj kvs) key =
     (case map_of kvs key of
        None \<Rightarrow> if key \<in> set Object_prototype then inherited key else JUndefined
      | Some v \<Rightarrow> v)"
| "get_prop JObjectPrototype key =
     (if key = ''__proto__'' then JNull
      else if key \<in> set Object_prototype then JNative key else JUndefined)"
| "get_prop v key = JUndefined"

text \<open>
  What an array or a primitive finds under a name it does not own. Under a name of
  \<open>Object_prototype\<close> other than \<^verbatim>\<open>__proto__\<close> it is a builtin function, its own
  prototype's or that of \<^verbatim>\<open>Object.prototype\<close>. The getter of \<^verbatim>\<open>__proto__\<close> returns
  its own prototype (\<^verbatim>\<open>Array.prototype\<close>, ...), and any other name may or may not be
  one of that prototype's: neither is represented.
\<close>

definition read_inherited :: "string \<Rightarrow> error + jv" where
  "read_inherited k =
     (if k \<in> set Object_prototype \<and> k \<noteq> ''__proto__'' then Inr (JNative k)
      else Inl NotModelled)"

text \<open>
  The read \<^verbatim>\<open>v[k]\<close>. It throws a \<^verbatim>\<open>TypeError\<close> on \<^verbatim>\<open>undefined\<close> and
  \<^verbatim>\<open>null\<close>; on an object, a property that is neither owned nor inherited reads as
  \<^verbatim>\<open>undefined\<close>.
\<close>

fun read_prop :: "jv \<Rightarrow> string \<Rightarrow> error + jv" where
  "read_prop JUndefined k = Inl TypeError"
| "read_prop JNull k = Inl TypeError"
| "read_prop (JBool b) k = read_inherited k"
| "read_prop (JNum x) k = read_inherited k"
| "read_prop (JStr s) k =
     (if k = ''length'' then Inr (JNum (real (length s)))
      else (case index_of k (length s) of
              None \<Rightarrow> read_inherited k
            | Some i \<Rightarrow> Inr (JStr [s ! i])))"
| "read_prop (JArr xs) k =
     (if k = ''length'' then Inr (JNum (real (length xs)))
      else (case index_of k (length xs) of
              None \<Rightarrow> read_inherited k
            | Some i \<Rightarrow> Inr (xs ! i)))"
| "read_prop (JObj kvs) k = Inr (get_prop (JObj kvs) k)"
| "read_prop (JNative f) k = Inl NotModelled"
| "read_prop JObjectPrototype k = Inr (get_prop JObjectPrototype k)"

text \<open>Values that are not objects: the setter of \<^verbatim>\<open>__proto__\<close> ignores them.\<close>

fun primitive :: "jv \<Rightarrow> bool" where
  "primitive JUndefined = True"
| "primitive (JBool b) = True"
| "primitive (JNum x) = True"
| "primitive (JStr s) = True"
| "primitive v = False"

text \<open>
  The write \<^verbatim>\<open>o[k] = v\<close>, returning the updated \<open>o\<close>. On an object it creates or
  updates an own property, except under the name \<^verbatim>\<open>__proto__\<close> when the object does
  not own it: that write runs the setter inherited from \<^verbatim>\<open>Object.prototype\<close>, which
  does nothing for a primitive \<open>v\<close> and replaces the prototype otherwise. Class bodies are
  strict mode code, so a write to a property of a primitive throws a \<^verbatim>\<open>TypeError\<close>, as
  a write to \<^verbatim>\<open>undefined\<close> or \<^verbatim>\<open>null\<close> does; the write of \<^verbatim>\<open>__proto__\<close> to a
  primitive reaches the setter, which returns. A write to an array at a new index, at
  \<^verbatim>\<open>length\<close> or at a named property is outside the model.
\<close>

fun assign :: "jv \<Rightarrow> string \<Rightarrow> jv \<Rightarrow> error + jv" where
  "assign (JObj kvs) k v =
     (if k = ''__proto__'' \<and> map_of kvs k = None
      then (if primitive v then Inr (JObj kvs) else Inl NotModelled)
      else Inr (JObj (AList.update k v kvs)))"
| "assign (JArr xs) k v =
     (case index_of k (length xs) of
        None \<Rightarrow> Inl NotModelled
      | Some i \<Rightarrow> Inr (JArr (xs[i := v])))"
| "assign (JNative f) k v = Inl NotModelled"
| "assign JObjectPrototype k v = Inl NotModelled"
| "assign JUndefined k v = Inl TypeError"
| "assign JNull k v = Inl TypeError"
| "assign w k v = (if k = ''__proto__'' then Inr w else Inl TypeError)"

subsection \<open>\<^verbatim>\<open>deepMerge\<close>\<close>

text \<open>The measure of the recursion: a property of an object is smaller than the object.\<close>

lemma size_map_of_less:
  "map_of s key = Some sv \<Longrightarrow> size sv < size_list (size_prod (\<lambda>x. 0) size) s"
  by (induction s) (auto split: if_splits)

lemma size_spread_less:
  "isObject v \<Longrightarrow> size_list (size_prod (\<lambda>x. 0) size) (spread v) < Suc (size v)"
  by (cases v) simp_all

text \<open>
  The assignment \<^verbatim>\<open>output[key] = value\<close> inside \<^verbatim>\<open>deepMerge\<close>, on the own properties
  of \<^verbatim>\<open>output\<close>, a plain object. Under \<^verbatim>\<open>__proto__\<close>, when \<^verbatim>\<open>output\<close> does not own
  that name, the inherited setter runs and no own property is added; the prototype that
  the setter installs for an object \<open>value\<close> is not represented.
\<close>

definition store_prop :: "string \<Rightarrow> jv \<Rightarrow> (string \<times> jv) list \<Rightarrow> (string \<times> jv) list" where
  "store_prop key v output =
     (if key = ''__proto__'' \<and> map_of output key = None then output
      else AList.update key v output)"

text \<open>
  \<open>merge_keys\<close> is the body of \<^verbatim>\<open>Object.keys(source).forEach(key => ...)\<close>, run over
  the keys still to visit with the own properties of \<^verbatim>\<open>output\<close> as the state; \<open>s\<close>
  holds the properties of \<^verbatim>\<open>source\<close>, so \<open>map_of s key\<close> is \<^verbatim>\<open>source[key]\<close> for a key
  of \<^verbatim>\<open>Object.keys(source)\<close>.
\<close>

function deepMerge :: "jv \<Rightarrow> jv \<Rightarrow> jv"
  and merge_keys ::
    "jv \<Rightarrow> (string \<times> jv) list \<Rightarrow> string list \<Rightarrow> (string \<times> jv) list
       \<Rightarrow> (string \<times> jv) list" where
  "deepMerge target source =
     JObj (if isObject target \<and> isObject source
           then merge_keys target (spread source) (map fst (spread source))
                  (spread target)
           else spread target)"
| "merge_keys target s [] output = output"
| "merge_keys target s (key # keys) output =
     merge_keys target s keys
       (store_prop key
          (case map_of s key of
             None \<Rightarrow> JUndefined
           | Some sv \<Rightarrow>
               if isObject sv then
                 (if \<not> has_prop target key then sv
                  else deepMerge (get_prop target key) sv)
               else sv)
          output)"
  by pat_completeness auto

termination
  by (relation "measures
        [(\<lambda>x. case x of
                Inl (t, s) \<Rightarrow> Suc (size s)
              | Inr (t, s, ks, out) \<Rightarrow> size_list (size_prod (\<lambda>x. 0) size) s),
         (\<lambda>x. case x of Inl (t, s) \<Rightarrow> 0 | Inr (t, s, ks, out) \<Rightarrow> length ks)]")
     (auto dest: size_map_of_less size_spread_less)

subsection \<open>\<^verbatim>\<open>get\<close> and \<^verbatim>\<open>set\<close>\<close>

record Config =
  config :: jv

text \<open>
  \<^verbatim>\<open>constructor()\<close>; \<open>apiKey\<close> is the value of \<^verbatim>\<open>process.env.OPENAI_API_KEY\<close>, a string
  or \<^verbatim>\<open>undefined\<close>.
\<close>

definition new_Config :: "jv \<Rightarrow> Config" where
  "new_Config apiKey =
     \<lparr>config = JObj
        [(''llm'', JObj
            [(''provider'', JStr ''openai''),
             (''model'', JStr ''gpt-4''),
             (''apiKey'', apiKey)]),
         (''languages'', JObj
            [(''javascript'', JObj
                [(''priority'', JNum 1), (''useCase'', JArr [JStr ''web'', JStr ''api''])]),
             (''python'', JObj
                [(''priority'', JNum 2), (''useCase'', JArr [JStr ''data'', JStr ''ml''])]),
             (''go'', JObj
                [(''priority'', JNum 3),
                 (''useCase'', JArr [JStr ''performance'', JStr ''concurrency''])]),
             (''rust'', JObj
                [(''priority'', JNum 4),
                 (''useCase'', JArr [JStr ''system'', JStr ''performance''])])]),
         (''paths'', JObj
            [(''services'', JStr ''./services''),
             (''templates'', JStr ''./templates'')])]\<rparr>"

text \<open>\<^verbatim>\<open>key.split('.')\<close>: never the empty list.\<close>

fun split_on :: "char \<Rightarrow> string \<Rightarrow> string list" where
  "split_on c [] = [[]]"
| "split_on c (x # xs) =
     (if x = c then [] # split_on c xs
      else (case split_on c xs of
              [] \<Rightarrow> [[x]]
            | w # ws \<Rightarrow> (x # w) # ws))"

text \<open>The loop of \<^verbatim>\<open>get\<close>, from \<^verbatim>\<open>result\<close> over the keys still to visit.\<close>

fun get_keys :: "jv \<Rightarrow> string list \<Rightarrow> error + jv" where
  "get_keys result [] = Inr result"
| "get_keys result (k # ks) =
     (case read_prop result k of
        Inl e \<Rightarrow> Inl e
      | Inr v \<Rightarrow> if v = JUndefined then Inr JUndefined else get_keys v ks)"

definition get :: "Config \<Rightarrow> string \<Rightarrow> error + jv" where
  "get c key = get_keys (config c) (split_on CHR ''.'' key)"



subsection \<open>\<^verbatim>\<open>loadFromFile\<close>\<close>

text \<open>
  The file system, \<^verbatim>\<open>path.extname\<close> and the two parsers are not code of this
  repository: they are parameters, each call either returning or throwing. The lines
  written to the console are not part of the state.
\<close>

record env =
  readFileSync :: "string \<Rightarrow> error + string"
  extname :: "string \<Rightarrow> string"
  JSON_parse :: "string \<Rightarrow> error + jv"
  yaml_parse :: "string \<Rightarrow> error + jv"

text \<open>\<^verbatim>\<open>toLowerCase()\<close> on the letters of ASCII.\<close>

definition toLowerCase :: "string \<Rightarrow> string" where
  "toLowerCase s =
     map (\<lambda>c. case map_of (zip ''ABCDEFGHIJKLMNOPQRSTUVWXYZ''
                                ''abcdefghijklmnopqrstuvwxyz'') c of
                None \<Rightarrow> c
              | Some l \<Rightarrow> l) s"

text \<open>
  The \<^verbatim>\<open>try\<close> block up to the value of \<^verbatim>\<open>loadedConfig\<close>: the file is read first,
  then the suffix decides the parser; an unsupported suffix throws.
\<close>

definition read_and_parse :: "env \<Rightarrow> string \<Rightarrow> error + jv" where
  "read_and_parse e configPath =
     (case readFileSync e configPath of
        Inl err \<Rightarrow> Inl err
      | Inr fileContents \<Rightarrow>
          (let extension = toLowerCase (extname e configPath)
           in if extension = ''.json'' then JSON_parse e fileContents
              else if extension \<in> set [''.yml'', ''.yaml'']
                   then yaml_parse e fileContents
              else Inl (Error (''Unsupported configuration file format: '' @ extension))))"

text \<open>The whole \<^verbatim>\<open>try\<close> block: \<^verbatim>\<open>this.config = this.deepMerge(this.config, loadedConfig)\<close>.\<close>

definition load_try :: "env \<Rightarrow> string \<Rightarrow> Config \<Rightarrow> error + Config" where
  "load_try e configPath c =
     (case read_and_parse e configPath of
        Inl err \<Rightarrow> Inl err
      | Inr loadedConfig \<Rightarrow> Inr (c\<lparr>config := deepMerge (config c) loadedConfig\<rparr>))"

text \<open>\<^verbatim>\<open>try { ...; return true; } catch (error) { ...; return false; }\<close>\<close>

definition loadFromFile :: "env \<Rightarrow> string \<Rightarrow> Config \<Rightarrow> bool \<times> Config" where
  "loadFromFile e configPath c =
     (case load_try e configPath c of
        Inl err \<Rightarrow> (False, c)
      | Inr c' \<Rightarrow> (True, c'))"

subsection \<open>The copy of \<^verbatim>\<open>loadFromFile\<close> without \<^verbatim>\<open>deepMerge\<close>\<close>

text \<open>
  The repository holds a second copy of the class whose \<^verbatim>\<open>loadFromFile\<close> assigns
  \<^verbatim>\<open>{ ...this.config, ...JSON.parse(fileContents) }\<close> (and the same for YAML). The
  callers and the tests load \<^verbatim>\<open>src/core/config.js\<close>, modelled above.
\<close>

definition spread_over :: "jv \<Rightarrow> jv \<Rightarrow> jv" where
  "spread_over a b = JObj (fold (\<lambda>kv. AList.update (fst kv) (snd kv)) (spread b) (spread a))"

definition loadFromFile_spread :: "env \<Rightarrow> string \<Rightarrow> Config \<Rightarrow> bool \<times> Config" where
  "loadFromFile_spread e configPath c =
     (case read_and_parse e configPath of
        Inl err \<Rightarrow> (False, c)
      | Inr loadedConfig \<Rightarrow> (True, c\<lparr>config := spread_over (config c) loadedConfig\<rparr>))"

section \<open>Reference formulations\<close>

subsection \<open>The weighted average over the terms of a query\<close>

text \<open>The term \<open>(rating, weight)\<close> of a dimension, when the query holds it.\<close>

definition present :: "real \<Rightarrow> requirement option \<Rightarrow> (real \<times> real) list" where
  "present c d = (case d of None \<Rightarrow> [] | Some x \<Rightarrow> [(c, weight x)])"

definition dimension_terms :: "LanguageProfile \<Rightarrow> requirements \<Rightarrow> (real \<times> real) list" where
  "dimension_terms p r =
     present (performance (characteristics p)) (q_performance r) @
     present (memory (characteristics p)) (q_memory r) @
     present (startupTime (characteristics p)) (q_startupTime r) @
     present (ecosystem (characteristics p)) (q_ecosystem r) @
     present (concurrency (characteristics p)) (q_concurrency r)"

text \<open>The use-case term as \<^verbatim>\<open>matches\<close> takes it.\<close>

definition useCase_term :: "LanguageProfile \<Rightarrow> requirements \<Rightarrow> (real \<times> real) list" where
  "useCase_term p r =
     (case useCase r of
        None \<Rightarrow> []
      | Some u \<Rightarrow>
          if u = [] then []
          else (case find (\<lambda>uc. uc_name uc = u) (useCases p) of
                  None \<Rightarrow> []
                | Some uc \<Rightarrow> [(uc_score uc, useCaseWeight_or_1 r)]))"

text \<open>
  The score in the specification's words: the use-case term is there whenever the query
  names a use case of the profile, its weight is \<^verbatim>\<open>useCaseWeight\<close> if given and 1
  otherwise, and the result is 0 when the total weight is 0.
\<close>

definition claimed_useCase_term ::
  "LanguageProfile \<Rightarrow> requirements \<Rightarrow> (real \<times> real) list" where
  "claimed_useCase_term p r =
     (case useCase r of
        None \<Rightarrow> []
      | Some u \<Rightarrow>
          (case find (\<lambda>uc. uc_name uc = u) (useCases p) of
             None \<Rightarrow> []
           | Some uc \<Rightarrow>
               [(uc_score uc, case useCaseWeight r of None \<Rightarrow> 1 | Some w \<Rightarrow> w)]))"

definition claimed_score :: "LanguageProfile \<Rightarrow> requirements \<Rightarrow> real" where
  "claimed_score p r =
     (let ts = dimension_terms p r @ claimed_useCase_term p r;
          total = sum_list (map snd ts)
      in if total = 0 then 0 else sum_list (map (\<lambda>(c, w). c * w) ts) / total)"

subsection \<open>The documented ranges\<close>

text \<open>
  Ratings and use-case scores are on a scale from 1 to 10 and weights are non-negative
  multipliers; the scorer validates neither. Only the sign matters below.
\<close>

definition rated_nonneg :: "LanguageProfile \<Rightarrow> bool" where
  "rated_nonneg p =
     (0 \<le> performance (characteristics p) \<and> 0 \<le> memory (characteristics p) \<and>
      0 \<le> startupTime (characteristics p) \<and> 0 \<le> ecosystem (characteristics p) \<and>
      0 \<le> concurrency (characteristics p) \<and>
      list_all (\<lambda>uc. 0 \<le> uc_score uc) (useCases p))"

definition weight_nonneg :: "requirement option \<Rightarrow> bool" where
  "weight_nonneg d = (case d of None \<Rightarrow> True | Some x \<Rightarrow> 0 \<le> weight x)"

definition weights_nonneg :: "requirements \<Rightarrow> bool" where
  "weights_nonneg r =
     (weight_nonneg (q_performance r) \<and> weight_nonneg (q_memory r) \<and>
      weight_nonneg (q_startupTime r) \<and> weight_nonneg (q_ecosystem r) \<and>
      weight_nonneg (q_concurrency r) \<and>
      (case useCaseWeight r of None \<Rightarrow> True | Some w \<Rightarrow> 0 \<le> w))"

subsection \<open>Example inputs\<close>

text \<open>The query \<^verbatim>\<open>{}\<close>.\<close>

definition no_requirements :: requirements where
  "no_requirements =
     \<lparr>q_performance = None, q_memory = None, q_startupTime = None,
      q_ecosystem = None, q_concurrency = None, useCase = None, useCaseWeight = None\<rparr>"

text \<open>
  The query \<^verbatim>\<open>{ performance: { weight: 1 }, concurrency: { weight: 1 }, useCase: 'system' }\<close>
  of the test suite.
\<close>

definition system_query :: requirements where
  "system_query =
     no_requirements\<lparr>q_performance := Some \<lparr>weight = 1\<rparr>,
                     q_concurrency := Some \<lparr>weight = 1\<rparr>,
                     useCase := Some ''system''\<rparr>"

text \<open>
  A profile rated 8 for performance with the use case \<^verbatim>\<open>web\<close> at 10, and the query
  \<^verbatim>\<open>{ performance: { weight: 1 }, useCase: 'web', useCaseWeight: 0 }\<close>.
\<close>

definition web_profile :: LanguageProfile where
  "web_profile =
     addUseCase ''web'' 10 (new_LanguageProfile ''test'' (\<lambda>c. c\<lparr>performance := 8\<rparr>))"

definition zero_weight_query :: requirements where
  "zero_weight_query =
     no_requirements\<lparr>q_performance := Some \<lparr>weight = 1\<rparr>,
                     useCase := Some ''web'',
                     useCaseWeight := Some 0\<rparr>"

subsection \<open>Reading a merged object\<close>

text \<open>The value that one round of \<^verbatim>\<open>forEach\<close> assigns to \<^verbatim>\<open>output[key]\<close>.\<close>

definition merged_entry :: "jv \<Rightarrow> (string \<times> jv) list \<Rightarrow> string \<Rightarrow> jv" where
  "merged_entry target s key =
     (case map_of s key of
        None \<Rightarrow> JUndefined
      | Some sv \<Rightarrow>
          if isObject sv then
            (if \<not> has_prop target key then sv else deepMerge (get_prop target key) sv)
          else sv)"

subsection \<open>Paths through nested mappings\<close>

text \<open>The value at the end of a path that leads through mappings only.\<close>

fun descend :: "jv \<Rightarrow> string list \<Rightarrow> jv option" where
  "descend v [] = Some v"
| "descend (JObj kvs) (k # ks) =
     (case map_of kvs k of None \<Rightarrow> None | Some child \<Rightarrow> descend child ks)"
| "descend v (k # ks) = None"

text \<open>
  A path is omitted by a document when, walking the document's nested mappings along
  it, some key of the path is missing from the mapping reached.
\<close>

fun omitted :: "jv \<Rightarrow> string list \<Rightarrow> bool" where
  "omitted (JObj kvs) (k # ks) =
     (case map_of kvs k of None \<Rightarrow> True | Some child \<Rightarrow> omitted child ks)"
| "omitted v ks = False"




subsection \<open>Example documents and environments\<close>

text \<open>The override document \<^verbatim>\<open>{ llm: { model: 'custom' } }\<close>.\<close>

definition custom_model :: jv where
  "custom_model = JObj [(''llm'', JObj [(''model'', JStr ''custom'')])]"

text \<open>The document \<^verbatim>\<open>{ llm: null }\<close>, as the YAML text \<^verbatim>\<open>llm:\<close> parses.\<close>

definition null_llm :: jv where
  "null_llm = JObj [(''llm'', JNull)]"

text \<open>An environment in which every file reads and parses as \<open>loaded\<close>.\<close>

definition env_of :: "string \<Rightarrow> jv \<Rightarrow> env" where
  "env_of suffix loaded =
     \<lparr>readFileSync = (\<lambda>p. Inr ''contents''),
      extname = (\<lambda>p. suffix),
      JSON_parse = (\<lambda>s. Inr loaded),
      yaml_parse = (\<lambda>s. Inr loaded)\<rparr>"

text \<open>Environments for the three ways to fail.\<close>

definition unreadable_env :: env where
  "unreadable_env = (env_of ''.json'' custom_model)
     \<lparr>readFileSync := (\<lambda>p. Inl (Error ''ENOENT''))\<rparr>"

definition unparsable_env :: env where
  "unparsable_env = (env_of ''.json'' custom_model)
     \<lparr>JSON_parse := (\<lambda>s. Inl (Error ''Unexpected token''))\<rparr>"

text \<open>The documents of the merge example.\<close>

definition merge_base :: jv where
  "merge_base = JObj [(''a'', JObj [(''x'', JNum 1), (''y'', JNum 2)])]"

definition merge_override :: jv where
  "merge_override = JObj [(''a'', JObj [(''y'', JNum 3)])]"

text \<open>
  A base with a mapping, a string, a number and an array, and an override with a mapping
  for each of them, an array and a new mapping.
\<close>

definition mixed_base :: "(string \<times> jv) list" where
  "mixed_base =
     [(''a'', JObj [(''x'', JNum 1), (''y'', JNum 2)]),
      (''s'', JStr ''hi''),
      (''n'', JNum 5),
      (''l'', JArr [JNum 1, JNum 2]),
      (''keep'', JBool True)]"

definition mixed_override :: "(string \<times> jv) list" where
  "mixed_override =
     [(''a'', JObj [(''y'', JNum 3)]),
      (''s'', JObj [(''x'', JNum 1)]),
      (''n'', JObj [(''x'', JNum 1)]),
      (''l'', JArr [JNum 9]),
      (''new'', JObj [(''x'', JNum 1)])]"

section \<open>Properties of the scorer\<close>

subsection \<open>\<^verbatim>\<open>matches\<close> as a weighted average\<close>

lemma accumulate_present:
  "accumulate c d acc =
     (fst acc + sum_list (map (\<lambda>(c, w). c * w) (present c d)),
      snd acc + sum_list (map snd (present c d)))"
  by (simp add: accumulate_def present_def split: option.splits)

lemma accumulate_useCase_term:
  "accumulate_useCase p r acc =
     (fst acc + sum_list (map (\<lambda>(c, w). c * w) (useCase_term p r)),
      snd acc + sum_list (map snd (useCase_term p r)))"
  by (simp add: accumulate_useCase_def useCase_term_def split: option.splits)

text \<open>
  What \<^verbatim>\<open>matches\<close> computes, for every profile and query: the weighted average over the
  dimensions the query holds and the use-case term, and 0 unless the total weight is
  positive.
\<close>

lemma matches_weighted_average:
  "matches p r =
     (let ts = dimension_terms p r @ useCase_term p r;
          total = sum_list (map snd ts)
      in if total > 0 then sum_list (map (\<lambda>(c, w). c * w) ts) / total else 0)"
  by (simp add: matches_def Let_def accumulate_present accumulate_useCase_term
      dimension_terms_def add.assoc)

lemma matches_no_requirements: "matches p no_requirements = 0"
  by (simp add: matches_def no_requirements_def accumulate_def accumulate_useCase_def)

lemma present_nonneg:
  "0 \<le> c \<Longrightarrow> weight_nonneg d \<Longrightarrow>
   0 \<le> sum_list (map (\<lambda>(c, w). c * w) (present c d)) \<and>
   0 \<le> sum_list (map snd (present c d))"
  by (simp add: present_def weight_nonneg_def split: option.splits)

lemma find_list_all: "list_all P xs \<Longrightarrow> find Q xs = Some x \<Longrightarrow> P x"
  by (induction xs) (auto split: if_splits)

lemma useCaseWeight_or_1_nonneg: "weights_nonneg r \<Longrightarrow> 0 \<le> useCaseWeight_or_1 r"
  by (simp add: weights_nonneg_def useCaseWeight_or_1_def split: option.splits)

lemma useCase_term_nonneg:
  "rated_nonneg p \<Longrightarrow> weights_nonneg r \<Longrightarrow>
   0 \<le> sum_list (map (\<lambda>(c, w). c * w) (useCase_term p r)) \<and>
   0 \<le> sum_list (map snd (useCase_term p r))"
  by (auto simp: useCase_term_def rated_nonneg_def useCaseWeight_or_1_nonneg
      split: option.splits dest: find_list_all)

lemma terms_nonneg:
  assumes "rated_nonneg p" "weights_nonneg r"
  shows "0 \<le> sum_list (map (\<lambda>(c, w). c * w) (dimension_terms p r @ useCase_term p r))"
    and "0 \<le> sum_list (map snd (dimension_terms p r @ useCase_term p r))"
  using assms useCase_term_nonneg[OF assms]
    present_nonneg[of "performance (characteristics p)" "q_performance r"]
    present_nonneg[of "memory (characteristics p)" "q_memory r"]
    present_nonneg[of "startupTime (characteristics p)" "q_startupTime r"]
    present_nonneg[of "ecosystem (characteristics p)" "q_ecosystem r"]
    present_nonneg[of "concurrency (characteristics p)" "q_concurrency r"]
  by (simp_all add: dimension_terms_def rated_nonneg_def weights_nonneg_def)

text \<open>With ratings and weights in the documented ranges no score is negative.\<close>

lemma matches_nonneg:
  "rated_nonneg p \<Longrightarrow> weights_nonneg r \<Longrightarrow> 0 \<le> matches p r"
  by (simp add: matches_weighted_average Let_def terms_nonneg del: map_append)

text \<open>
  \<^verbatim>\<open>matches\<close> is the score of the specification for every query with non-negative
  weights whose \<^verbatim>\<open>useCaseWeight\<close> is not 0 and whose \<^verbatim>\<open>useCase\<close> is not the empty string.
\<close>

lemma matches_eq_claimed_score:
  assumes "weights_nonneg r" "useCaseWeight r \<noteq> Some 0" "useCase r \<noteq> Some []"
  shows "matches p r = claimed_score p r"
proof -
  have eq: "useCase_term p r = claimed_useCase_term p r"
    using assms(2,3)
    by (auto simp: useCase_term_def claimed_useCase_term_def useCaseWeight_or_1_def
        split: option.splits)
  have w: "0 \<le> sum_list (map snd (dimension_terms p r @ claimed_useCase_term p r))"
  proof -
    have "0 \<le> sum_list (map snd (present c d))" if "weight_nonneg d" for c d
      using that by (simp add: present_def weight_nonneg_def split: option.splits)
    moreover have "0 \<le> sum_list (map snd (claimed_useCase_term p r))"
      using assms(1)
      by (simp add: claimed_useCase_term_def weights_nonneg_def split: option.splits)
    ultimately show ?thesis
      using assms(1) by (simp add: dimension_terms_def weights_nonneg_def)
  qed
  show ?thesis
    using w unfolding matches_weighted_average claimed_score_def eq Let_def
    by (simp del: map_append)
qed

text \<open>
  C1. The claim gives the use-case term the weight \<^verbatim>\<open>useCaseWeight\<close> whenever the query
  gives one. The source writes \<^verbatim>\<open>requirements.useCaseWeight || 1\<close>, which also replaces a
  given weight of 0 by 1. For the profile rated 8 for performance with \<^verbatim>\<open>web\<close> at 10 and
  the query \<^verbatim>\<open>{ performance: { weight: 1 }, useCase: 'web', useCaseWeight: 0 }\<close> the source
  returns (8 * 1 + 10 * 1) / (1 + 1) = 9, where the claimed weighted average is
  (8 * 1 + 10 * 0) / (1 + 0) = 8.
\<close>

theorem matches_zero_useCaseWeight:
  "matches web_profile zero_weight_query = 9 \<and>
   claimed_score web_profile zero_weight_query = 8"
  by (simp add: matches_def claimed_score_def dimension_terms_def present_def
      claimed_useCase_term_def accumulate_def accumulate_useCase_def
      useCaseWeight_or_1_def web_profile_def zero_weight_query_def no_requirements_def
      addUseCase_def new_LanguageProfile_def default_characteristics_def)

subsection \<open>The loop of \<^verbatim>\<open>findBestLanguageForRequirements\<close>\<close>

lemma best_loop_noop:
  "\<forall>x\<in>set ps. matches (snd x) r \<le> fst best \<Longrightarrow> best_loop r ps best = best"
  by (induction ps arbitrary: best) (auto simp: not_less[symmetric])

lemma best_loop_first_max:
  "i < length ps \<Longrightarrow> fst best < matches (snd (ps ! i)) r \<Longrightarrow>
   \<forall>j<i. matches (snd (ps ! j)) r < matches (snd (ps ! i)) r \<Longrightarrow>
   \<forall>j<length ps. matches (snd (ps ! j)) r \<le> matches (snd (ps ! i)) r \<Longrightarrow>
   best_loop r ps best = (matches (snd (ps ! i)) r, Some (fst (ps ! i)))"
proof (induction ps arbitrary: best i)
  case Nil
  then show ?case by simp
next
  case (Cons x xs)
  obtain n p where x: "x = (n, p)" by (cases x)
  show ?case
  proof (cases i)
    case 0
    have "\<forall>y\<in>set xs. matches (snd y) r \<le> matches p r"
    proof
      fix y assume "y \<in> set xs"
      then obtain j where "j < length xs" "xs ! j = y" by (auto simp: in_set_conv_nth)
      with Cons.prems(4)[rule_format, of "Suc j"] 0 x
      show "matches (snd y) r \<le> matches p r" by simp
    qed
    then have "best_loop r xs (matches p r, Some n) = (matches p r, Some n)"
      by (intro best_loop_noop) simp
    with 0 x Cons.prems(2) show ?thesis by simp
  next
    case (Suc k)
    let ?m = "matches (snd (xs ! k)) r"
    let ?b = "if matches p r > fst best then (matches p r, Some n) else best"
    have lt: "matches p r < ?m" using Cons.prems(3)[rule_format, of 0] Suc x by simp
    have 1: "k < length xs" using Cons.prems(1) Suc by simp
    have 2: "fst ?b < ?m" using lt Cons.prems(2) Suc by simp
    have 3: "\<forall>j<k. matches (snd (xs ! j)) r < ?m"
      using Cons.prems(3) Suc by (metis Suc_mono nth_Cons_Suc)
    have 4: "\<forall>j<length xs. matches (snd (xs ! j)) r \<le> ?m"
      using Cons.prems(4) Suc by (metis Suc_mono length_Cons nth_Cons_Suc)
    have "best_loop r xs ?b = (?m, Some (fst (xs ! k)))"
      by (rule Cons.IH[OF 1 2 3 4])
    then show ?thesis using Suc x by simp
  qed
qed

text \<open>One more entry at the end replaces the state exactly when it scores strictly more.\<close>

lemma best_loop_snoc:
  "best_loop r (ps @ [(n, p)]) best =
     (let b = best_loop r ps best
      in if fst b < matches p r then (matches p r, Some n) else b)"
  by (induction ps arbitrary: best) (auto simp: Let_def)

lemma map_of_nth_distinct:
  "distinct (map fst ps) \<Longrightarrow> i < length ps \<Longrightarrow>
   map_of ps (fst (ps ! i)) = Some (snd (ps ! i))"
  by (metis map_of_eq_Some_iff nth_mem prod.collapse)

text \<open>
  Either no entry scored above the running best and the state is as it was, or the state
  holds the name and the score of an entry that did.
\<close>

lemma best_loop_result:
  "snd (best_loop r ps best) = snd best \<and> fst (best_loop r ps best) = fst best \<and>
     (\<forall>x\<in>set ps. matches (snd x) r \<le> fst best)
   \<or> (\<exists>x\<in>set ps. snd (best_loop r ps best) = Some (fst x) \<and>
         fst (best_loop r ps best) = matches (snd x) r \<and> fst best < matches (snd x) r)"
proof (induction ps arbitrary: best)
  case Nil
  then show ?case by simp
next
  case (Cons x xs)
  obtain n p where x: "x = (n, p)" by (cases x)
  let ?b = "if matches p r > fst best then (matches p r, Some n) else best"
  from Cons.IH[of ?b] x show ?case
    by (auto split: if_splits simp: not_less)
qed

text \<open>
  C2. The entries are visited in the order of the registry, and an entry replaces the
  running best only when its score is strictly greater (the second part of the theorem).
  So the result is the first entry that attains the maximal score: when entry \<open>i\<close> scores
  at least as much as every entry and strictly more than every entry before it,
  \<^verbatim>\<open>findBestLanguageForRequirements\<close> returns its name, its score and its profile. The
  names of a registry are distinct (they are the keys of an object) and not empty, and the
  maximal score is above the initial \<^verbatim>\<open>bestScore\<close> of -1, as every score is when ratings
  and weights are not negative (\<open>matches_nonneg\<close>).
\<close>

theorem findBest_first_maximal:
  assumes "distinct (map fst ps)"
    and "i < length ps"
    and "\<forall>j<length ps. matches (snd (ps ! j)) r \<le> matches (snd (ps ! i)) r"
    and "\<forall>j<i. matches (snd (ps ! j)) r < matches (snd (ps ! i)) r"
    and "- 1 < matches (snd (ps ! i)) r"
    and "fst (ps ! i) \<noteq> []"
  shows "findBestLanguageForRequirements ps r =
           \<lparr>language = Some (fst (ps ! i)),
            score = matches (snd (ps ! i)) r,
            profile = Some (snd (ps ! i))\<rparr> \<and>
         (\<forall>qs n p best. best_loop r (qs @ [(n, p)]) best =
            (if fst (best_loop r qs best) < matches p r then (matches p r, Some n)
             else best_loop r qs best))"
proof -
  have "best_loop r ps (- 1, None) = (matches (snd (ps ! i)) r, Some (fst (ps ! i)))"
    using assms(2,5,4,3) by (intro best_loop_first_max) simp_all
  then have "findBestLanguageForRequirements ps r =
           \<lparr>language = Some (fst (ps ! i)),
            score = matches (snd (ps ! i)) r,
            profile = Some (snd (ps ! i))\<rparr>"
    using assms(1,2,6)
    by (simp add: findBestLanguageForRequirements_def map_of_nth_distinct)
  then show ?thesis
    by (simp add: best_loop_snoc Let_def)
qed

lemmas builtin_defs =
  profiles_def javascriptProfile_def pythonProfile_def goProfile_def rustProfile_def
  addLibrary_def addUseCase_def new_LanguageProfile_def default_characteristics_def

lemmas matches_defs =
  matches_def accumulate_def accumulate_useCase_def useCaseWeight_or_1_def

text \<open>
  On the empty query all four builtin profiles score 0; the first registered,
  \<^verbatim>\<open>javascript\<close>, is returned.
\<close>

theorem findBest_first_maximal_witness:
  "distinct (map fst profiles) \<and> (0::nat) < length profiles \<and>
   matches pythonProfile no_requirements = matches javascriptProfile no_requirements \<and>
   matches goProfile no_requirements = matches javascriptProfile no_requirements \<and>
   matches rustProfile no_requirements = matches javascriptProfile no_requirements \<and>
   - 1 < matches javascriptProfile no_requirements \<and>
   findBestLanguageForRequirements profiles no_requirements =
     \<lparr>language = Some ''javascript'', score = 0, profile = Some javascriptProfile\<rparr>"
proof -
  have d: "distinct (map fst profiles)" by (simp add: profiles_def)
  have l: "(0::nat) < length profiles" by (simp add: profiles_def)
  have m: "\<forall>j<length profiles.
             matches (snd (profiles ! j)) no_requirements
               \<le> matches (snd (profiles ! 0)) no_requirements"
    by (simp add: matches_no_requirements)
  have f: "\<forall>j<0. matches (snd (profiles ! j)) no_requirements
                   < matches (snd (profiles ! 0)) no_requirements"
    by simp
  have s: "- 1 < matches (snd (profiles ! 0)) no_requirements"
    by (simp add: matches_no_requirements)
  have n: "fst (profiles ! 0) \<noteq> []" by (simp add: profiles_def)
  show ?thesis
    using findBest_first_maximal[OF d l m f s n] d l
    by (simp add: matches_no_requirements) (simp add: profiles_def)
qed

text \<open>
  C8. With ratings and weights in the documented ranges and registry names that are not
  empty: the initial \<^verbatim>\<open>bestScore\<close> of -1 is less than zero and less than the score of
  any profile; for the empty registry the result is \<^verbatim>\<open>{ language: null, score: -1,
  profile: null }\<close>; and each of a null language, a null profile and a negative score
  occurs exactly when the registry is empty. The function is total: it returns a result
  for every registry.
\<close>

theorem findBest_null_iff_empty:
  assumes "list_all (\<lambda>(n, p). n \<noteq> [] \<and> rated_nonneg p) ps"
    and "weights_nonneg r"
  shows "findBestLanguageForRequirements [] r = \<lparr>language = None, score = - 1, profile = None\<rparr> \<and>
         (language (findBestLanguageForRequirements ps r) = None \<longleftrightarrow> ps = []) \<and>
         (profile (findBestLanguageForRequirements ps r) = None \<longleftrightarrow> ps = []) \<and>
         (score (findBestLanguageForRequirements ps r) = - 1 \<longleftrightarrow> ps = []) \<and>
         (score (findBestLanguageForRequirements ps r) < 0 \<longleftrightarrow> ps = []) \<and>
         (\<forall>p. rated_nonneg p \<longrightarrow> - 1 < matches p r)"
proof -
  let ?b = "best_loop r ps (- 1, None)"
  have nonneg: "0 \<le> matches (snd x) r" and named: "fst x \<noteq> []" if "x \<in> set ps" for x
    using assms that by (auto simp: list_all_iff matches_nonneg)
  have empty: "findBestLanguageForRequirements [] r =
      \<lparr>language = None, score = - 1, profile = None\<rparr>"
    by (simp add: findBestLanguageForRequirements_def)
  have sentinel: "\<forall>p. rated_nonneg p \<longrightarrow> - 1 < matches p r"
    using matches_nonneg[OF _ assms(2)] by force
  show ?thesis
  proof (cases "ps = []")
    case True
    with empty sentinel show ?thesis by simp
  next
    case False
    then obtain y where y: "y \<in> set ps" by (cases ps) auto
    from best_loop_result[of r ps "(- 1, None)"] nonneg[OF y] y
    obtain x where x: "x \<in> set ps" "snd ?b = Some (fst x)" "fst ?b = matches (snd x) r"
      by fastforce
    have "map_of ps (fst x) \<noteq> None"
      using x(1) by (metis map_of_eq_None_iff image_eqI)
    with x named[OF x(1)] nonneg[OF x(1)] False empty sentinel show ?thesis
      by (simp add: findBestLanguageForRequirements_def)
  qed
qed

theorem findBest_null_iff_empty_witness:
  "list_all (\<lambda>(n, p). n \<noteq> [] \<and> rated_nonneg p) profiles \<and>
   weights_nonneg system_query \<and>
   language (findBestLanguageForRequirements profiles system_query) \<noteq> None \<and>
   profile (findBestLanguageForRequirements profiles system_query) \<noteq> None \<and>
   0 \<le> score (findBestLanguageForRequirements profiles system_query) \<and>
   - 1 < matches rustProfile system_query"
proof -
  have w: "list_all (\<lambda>(n, p). n \<noteq> [] \<and> rated_nonneg p) profiles"
    by (simp add: builtin_defs rated_nonneg_def)
  have q: "weights_nonneg system_query"
    by (simp add: system_query_def no_requirements_def weights_nonneg_def weight_nonneg_def)
  have r: "rated_nonneg rustProfile"
    by (simp add: builtin_defs rated_nonneg_def)
  have ne: "profiles \<noteq> []" by (simp add: profiles_def)
  show ?thesis
    using findBest_null_iff_empty[OF w q] w q r ne
    by (auto simp: not_less)
qed

text \<open>
  C9. The builtin profiles carry the tabulated ratings and use-case scores, and for the
  query \<^verbatim>\<open>{ performance: { weight: 1 }, concurrency: { weight: 1 }, useCase: 'system' }\<close>
  the result names \<^verbatim>\<open>rust\<close>, with the score (10 + 9 + 10) / 3.
\<close>

theorem findBest_builtin_system_query:
  "map fst profiles = [''javascript'', ''python'', ''go'', ''rust''] \<and>
   map (characteristics \<circ> snd) profiles =
     [\<lparr>performance = 6, memory = 5, startupTime = 7, ecosystem = 9, concurrency = 6\<rparr>,
      \<lparr>performance = 5, memory = 6, startupTime = 6, ecosystem = 9, concurrency = 5\<rparr>,
      \<lparr>performance = 8, memory = 8, startupTime = 9, ecosystem = 7, concurrency = 10\<rparr>,
      \<lparr>performance = 10, memory = 9, startupTime = 7, ecosystem = 6, concurrency = 9\<rparr>] \<and>
   map (map (\<lambda>uc. (uc_name uc, uc_score uc)) \<circ> useCases \<circ> snd) profiles =
     [[(''web'', 9), (''api'', 8), (''scripting'', 9), (''data'', 6)],
      [(''data'', 9), (''ml'', 10), (''scripting'', 9), (''web'', 6)],
      [(''performance'', 9), (''concurrency'', 10), (''api'', 8), (''system'', 8)],
      [(''system'', 10), (''performance'', 10), (''concurrency'', 9), (''embedded'', 9)]] \<and>
   findBestLanguageForRequirements profiles system_query =
     \<lparr>language = Some ''rust'', score = 29 / 3, profile = Some rustProfile\<rparr>"
  by (simp add: findBestLanguageForRequirements_def builtin_defs matches_defs
      system_query_def no_requirements_def)

section \<open>Properties of the configuration store\<close>

subsection \<open>\<^verbatim>\<open>deepMerge\<close> key by key\<close>

lemma store_prop_map_of:
  "map_of (store_prop k v out) key =
     (if key = k \<and> (k \<noteq> ''__proto__'' \<or> map_of out k \<noteq> None) then Some v
      else map_of out key)"
  by (auto simp: store_prop_def update_conv')

lemma merge_keys_map_of:
  "map_of (merge_keys target s ks out) key =
     (if key \<in> set ks \<and> (key \<noteq> ''__proto__'' \<or> map_of out key \<noteq> None)
      then Some (merged_entry target s key) else map_of out key)"
proof (induction ks arbitrary: out)
  case Nil
  then show ?case by simp
next
  case (Cons k ks)
  have step: "merge_keys target s (k # ks) out =
      merge_keys target s ks (store_prop k (merged_entry target s k) out)"
    by (simp only: merge_keys.simps merged_entry_def)
  show ?case
    apply (subst step)
    apply (subst Cons.IH)
    apply (subst store_prop_map_of)+
    apply (cases "key = k")
     apply (simp_all only: list.set insert_iff simp_thms if_True if_False option.distinct
        split: if_splits)
    apply blast
    done
qed

lemma deepMerge_objects:
  "deepMerge (JObj t) (JObj s) = JObj (merge_keys (JObj t) s (map fst s) t)"
  by simp

lemma deepMerge_not_objects:
  "\<not> (isObject target \<and> isObject source) \<Longrightarrow> deepMerge target source = JObj (spread target)"
  by auto

lemma deepMerge_map_of:
  assumes "key \<noteq> ''__proto__'' \<or> map_of t key \<noteq> None"
  shows "map_of (merge_keys (JObj t) s (map fst s) t) key =
     (case map_of s key of
        None \<Rightarrow> map_of t key
      | Some sv \<Rightarrow>
          Some (if isObject sv then
                  (if \<not> has_prop (JObj t) key then sv
                   else deepMerge (get_prop (JObj t) key) sv)
                else sv))"
proof (cases "map_of s key")
  case None
  then have "key \<notin> set (map fst s)" by (simp add: map_of_eq_None_iff)
  with None show ?thesis by (simp add: merge_keys_map_of)
next
  case (Some sv)
  then have "key \<in> set (map fst s)" by (metis map_of_eq_None_iff option.distinct(1) set_map)
  with Some assms show ?thesis
    by (simp add: merge_keys_map_of merged_entry_def del: map_of_eq_None_iff)
qed

lemma deepMerge_map_of_absent:
  "map_of s key = None \<Longrightarrow> map_of (merge_keys target s (map fst s) out) key = map_of out key"
  by (simp add: merge_keys_map_of map_of_eq_None_iff)

text \<open>
  On the keys that are not names of \<^verbatim>\<open>Object.prototype\<close>, \<^verbatim>\<open>deepMerge\<close> of two
  mappings works key by key: a key that the override does not have keeps its base value
  (this holds for every key); a key whose override value is a plain mapping and which the
  base has is merged recursively; every other override value, arrays included, replaces
  the base value.
\<close>

lemma deepMerge_key_by_key:
  "deepMerge (JObj base) (JObj override) =
     JObj (spread (deepMerge (JObj base) (JObj override))) \<and>
   (\<forall>key. map_of override key = None \<longrightarrow>
      map_of (spread (deepMerge (JObj base) (JObj override))) key = map_of base key) \<and>
   (\<forall>key sv tv. key \<notin> set Object_prototype \<and>
        map_of override key = Some sv \<and> isObject sv \<and> map_of base key = Some tv \<longrightarrow>
      map_of (spread (deepMerge (JObj base) (JObj override))) key = Some (deepMerge tv sv)) \<and>
   (\<forall>key sv. key \<notin> set Object_prototype \<and>
        map_of override key = Some sv \<and> isObject sv \<and> map_of base key = None \<longrightarrow>
      map_of (spread (deepMerge (JObj base) (JObj override))) key = Some sv) \<and>
   (\<forall>key sv. key \<notin> set Object_prototype \<and>
        map_of override key = Some sv \<and> \<not> isObject sv \<longrightarrow>
      map_of (spread (deepMerge (JObj base) (JObj override))) key = Some sv) \<and>
   deepMerge merge_base merge_override =
     JObj [(''a'', JObj [(''x'', JNum 1), (''y'', JNum 3)])]"
proof -
  let ?m = "spread (deepMerge (JObj base) (JObj override))"
  have np: "key \<noteq> ''__proto__''" if "key \<notin> set Object_prototype" for key
    using that by (auto simp: Object_prototype_def)
  have ob: "deepMerge (JObj base) (JObj override) = JObj ?m"
    by simp
  have 1: "\<forall>key. map_of override key = None \<longrightarrow> map_of ?m key = map_of base key"
    by (simp add: deepMerge_map_of_absent del: map_of_eq_None_iff)
  have 2: "\<forall>key sv tv. key \<notin> set Object_prototype \<and> map_of override key = Some sv \<and>
              isObject sv \<and> map_of base key = Some tv \<longrightarrow>
              map_of ?m key = Some (deepMerge tv sv)"
    by (simp add: deepMerge_map_of np)
  have 3: "\<forall>key sv. key \<notin> set Object_prototype \<and> map_of override key = Some sv \<and>
              isObject sv \<and> map_of base key = None \<longrightarrow> map_of ?m key = Some sv"
    by (simp add: deepMerge_map_of np del: map_of_eq_None_iff)
  have 4: "\<forall>key sv. key \<notin> set Object_prototype \<and> map_of override key = Some sv \<and>
              \<not> isObject sv \<longrightarrow> map_of ?m key = Some sv"
    by (simp add: deepMerge_map_of np)
  have ex: "deepMerge merge_base merge_override =
     JObj [(''a'', JObj [(''x'', JNum 1), (''y'', JNum 3)])]"
    by (simp add: merge_base_def merge_override_def store_prop_def)
  from ob 1 2 3 4 ex show ?thesis by blast
qed

text \<open>
  C3. The claim fails on a key of the override that names a member of
  \<^verbatim>\<open>Object.prototype\<close>. The test \<^verbatim>\<open>key in target\<close> follows the prototype chain, so
  for the base \<^verbatim>\<open>{ b: 1 }\<close>, which has no key \<^verbatim>\<open>constructor\<close>, and the override
  \<^verbatim>\<open>{ constructor: { x: 1 } }\<close> the source takes the branch that merges into
  \<^verbatim>\<open>target.constructor\<close>, the function \<^verbatim>\<open>Object\<close>: the result is
  \<^verbatim>\<open>{ b: 1, constructor: {} }\<close>, and the override value \<^verbatim>\<open>{ x: 1 }\<close> that the claim
  puts there is lost. The example of the claim itself evaluates as the claim says.
\<close>

theorem deepMerge_inherited_key:
  "deepMerge (JObj [(''b'', JNum 1)]) (JObj [(''constructor'', JObj [(''x'', JNum 1)])])
     = JObj [(''b'', JNum 1), (''constructor'', JObj [])] \<and>
   deepMerge (JObj [(''b'', JNum 1)]) (JObj [(''constructor'', JObj [(''x'', JNum 1)])])
     \<noteq> JObj [(''b'', JNum 1), (''constructor'', JObj [(''x'', JNum 1)])] \<and>
   deepMerge merge_base merge_override
     = JObj [(''a'', JObj [(''x'', JNum 1), (''y'', JNum 3)])]"
  by (simp add: store_prop_def Object_prototype_def inherited_def merge_base_def
      merge_override_def)

subsection \<open>A mapping over a value that is not a mapping\<close>

lemma indexed_keys: "map fst (indexed xs) = map string_of_nat [0..<length xs]"
  by (simp add: indexed_def)

lemma indexed_values: "map snd (indexed xs) = xs"
  by (simp add: indexed_def)

text \<open>
  C10 as stated fails for a base value that is a string that is not empty: the spread
  \<^verbatim>\<open>{ ...'hi' }\<close> is \<^verbatim>\<open>{ 0: 'h', 1: 'i' }\<close>, not \<^verbatim>\<open>{}\<close>.
\<close>

theorem deepMerge_mapping_over_string:
  "deepMerge (JObj [(''a'', JStr ''hi'')]) (JObj [(''a'', JObj [(''x'', JNum 1)])])
     = JObj [(''a'', JObj [(''0'', JStr ''h''), (''1'', JStr ''i'')])] \<and>
   deepMerge (JObj [(''a'', JStr ''hi'')]) (JObj [(''a'', JObj [(''x'', JNum 1)])])
     \<noteq> JObj [(''a'', JObj [])]"
  by (simp add: indexed_def string_of_nat.simps digit_char_def store_prop_def)

text \<open>
  C10, amended. When the override maps a key to a plain mapping and the base maps it to a
  value that is not a plain mapping, the result holds at that key the mapping of the base
  value's own enumerable properties, whatever the override mapping holds: the empty
  mapping for a number, a boolean, \<^verbatim>\<open>null\<close>, \<^verbatim>\<open>undefined\<close> and the empty string, and
  the characters under their indices for any other string.
\<close>

theorem deepMerge_mapping_over_non_mapping:
  assumes "map_of override key = Some sv" and "isObject sv"
    and "map_of base key = Some tv" and "\<not> isObject tv"
  shows "map_of (spread (deepMerge (JObj base) (JObj override))) key = Some (JObj (spread tv)) \<and>
         ((\<exists>b. tv = JBool b) \<or> (\<exists>x. tv = JNum x) \<or> tv = JNull \<or> tv = JUndefined \<or> tv = JStr []
            \<longrightarrow> spread tv = []) \<and>
         (\<forall>s. tv = JStr s \<longrightarrow>
            map fst (spread tv) = map string_of_nat [0..<length s] \<and>
            map snd (spread tv) = map (\<lambda>c. JStr [c]) s)"
proof -
  have "map_of (spread (deepMerge (JObj base) (JObj override))) key = Some (deepMerge tv sv)"
    using assms(1,2,3) by (simp add: deepMerge_map_of)
  moreover have "deepMerge tv sv = JObj (spread tv)"
    using assms(4) by (rule_tac deepMerge_not_objects) simp
  ultimately show ?thesis
    by (auto simp: indexed_keys indexed_values indexed_def)
qed

text \<open>On the number 5 and on the string \<^verbatim>\<open>hi\<close>, each under a mapping of the override.\<close>

theorem deepMerge_mapping_over_non_mapping_witness:
  "map_of mixed_override ''n'' = Some (JObj [(''x'', JNum 1)]) \<and>
   isObject (JObj [(''x'', JNum 1)]) \<and>
   map_of mixed_base ''n'' = Some (JNum 5) \<and> \<not> isObject (JNum 5) \<and>
   map_of (spread (deepMerge (JObj mixed_base) (JObj mixed_override))) ''n'' = Some (JObj []) \<and>
   map_of mixed_override ''s'' = Some (JObj [(''x'', JNum 1)]) \<and>
   map_of mixed_base ''s'' = Some (JStr ''hi'') \<and> \<not> isObject (JStr ''hi'') \<and>
   map_of (spread (deepMerge (JObj mixed_base) (JObj mixed_override))) ''s''
     = Some (JObj [(''0'', JStr ''h''), (''1'', JStr ''i'')])"
proof -
  have n: "map_of mixed_override ''n'' = Some (JObj [(''x'', JNum 1)])"
    and nb: "map_of mixed_base ''n'' = Some (JNum 5)"
    and s: "map_of mixed_override ''s'' = Some (JObj [(''x'', JNum 1)])"
    and sb: "map_of mixed_base ''s'' = Some (JStr ''hi'')"
    by (simp_all add: mixed_base_def mixed_override_def)
  have o: "isObject (JObj [(''x'', JNum 1)])" and nn: "\<not> isObject (JNum 5)"
    and ns: "\<not> isObject (JStr ''hi'')"
    by simp_all
  have sp: "spread (JNum 5) = []"
    "spread (JStr ''hi'') = [(''0'', JStr ''h''), (''1'', JStr ''i'')]"
    by (simp_all add: indexed_def string_of_nat.simps digit_char_def)
  from deepMerge_mapping_over_non_mapping[OF n o nb nn]
    deepMerge_mapping_over_non_mapping[OF s o sb ns] n nb s sb o nn ns sp
  show ?thesis by (simp only: simp_thms)
qed

subsection \<open>Keys and indices\<close>

lemma split_on_not_Nil: "split_on c s \<noteq> []"
  by (induction s) (auto split: list.splits)

lemma string_of_nat_digits: "set (string_of_nat n) \<subseteq> set ''0123456789''"
proof (induction n rule: string_of_nat.induct)
  case (1 n)
  have d: "digit_char m \<in> set ''0123456789''" if "m < 10" for m
    using that unfolding digit_char_def by (intro nth_mem) simp
  show ?case
  proof (cases "n < 10")
    case True
    then show ?thesis using d[of n] by (subst string_of_nat.simps) simp
  next
    case False
    then show ?thesis
      using 1 d[of "n mod 10"] by (subst string_of_nat.simps) simp
  qed
qed

lemma index_of_Some: "index_of k n = Some i \<Longrightarrow> i < n \<and> string_of_nat i = k"
  unfolding index_of_def by (auto simp: find_Some_iff)

lemma index_of_not_length: "index_of ''length'' n = None"
proof (cases "index_of ''length'' n")
  case (Some i)
  then have "string_of_nat i = ''length''" by (simp add: index_of_Some)
  with string_of_nat_digits[of i] show ?thesis by auto
qed simp

subsection \<open>\<^verbatim>\<open>get\<close>\<close>

text \<open>
  C5. \<^verbatim>\<open>get\<close> tests \<^verbatim>\<open>result[k] === undefined\<close> before it descends, so a missing
  key yields \<^verbatim>\<open>undefined\<close>; but \<^verbatim>\<open>null\<close> passes the test, and the next read
  \<^verbatim>\<open>null[k]\<close> throws a \<^verbatim>\<open>TypeError\<close>. The document \<^verbatim>\<open>{ a: null }\<close> is a state of
  the store, and so is the default document after loading a YAML file that reads
  \<^verbatim>\<open>llm:\<close>, which parses as \<^verbatim>\<open>{ llm: null }\<close>; there \<^verbatim>\<open>get('llm.model')\<close> throws.
\<close>

theorem get_throws_below_null:
  "get \<lparr>config = JObj [(''a'', JNull)]\<rparr> ''a.b'' = Inl TypeError \<and>
   loadFromFile (env_of ''.yml'' null_llm) ''config.yml'' (new_Config JUndefined)
     = (True, \<lparr>config = deepMerge (config (new_Config JUndefined)) null_llm\<rparr>) \<and>
   get \<lparr>config = deepMerge (config (new_Config JUndefined)) null_llm\<rparr> ''llm.model''
     = Inl TypeError"
  by (simp add: get_def loadFromFile_def load_try_def read_and_parse_def env_of_def
      toLowerCase_def null_llm_def new_Config_def store_prop_def)

lemma descend_get_keys: "descend d ks = Some v \<Longrightarrow> get_keys d ks = Inr v"
proof (induction d ks rule: descend.induct)
  case (2 kvs k ks)
  then obtain child where c: "map_of kvs k = Some child" "descend child ks = Some v"
    by (auto split: option.splits)
  show ?case
  proof (cases "child = JUndefined")
    case True
    with c have "ks = []" by (cases ks) auto
    with c True show ?thesis by simp
  next
    case False
    with c 2 show ?thesis by simp
  qed
qed simp_all

subsection \<open>\<^verbatim>\<open>set\<close>\<close>


lemma assign_own: "k \<noteq> ''__proto__'' \<Longrightarrow> assign (JObj kvs) k v = Inr (JObj (AList.update k v kvs))"
  by simp

lemma read_prop_own: "map_of kvs k = Some v \<Longrightarrow> read_prop (JObj kvs) k = Inr v"
  by simp

lemma read_prop_absent:
  "k \<notin> set Object_prototype \<Longrightarrow> map_of kvs k = None \<Longrightarrow> read_prop (JObj kvs) k = Inr JUndefined"
  by simp

lemma read_prop_update: "read_prop (JObj (AList.update k v kvs)) k = Inr v"
  by (simp add: update_conv')










subsection \<open>\<^verbatim>\<open>loadFromFile\<close>\<close>

lemma loadFromFile_success:
  "read_and_parse e path = Inr loaded \<Longrightarrow>
   loadFromFile e path c = (True, c\<lparr>config := deepMerge (config c) loaded\<rparr>)"
  by (simp add: loadFromFile_def load_try_def)

lemma loadFromFile_failure:
  "read_and_parse e path = Inl err \<Longrightarrow> loadFromFile e path c = (False, c)"
  by (simp add: loadFromFile_def load_try_def)

lemma omitted_preserved:
  "descend base ks = Some v \<Longrightarrow> omitted loaded ks \<Longrightarrow>
   descend (deepMerge base loaded) ks = Some v"
proof (induction ks arbitrary: base loaded)
  case Nil
  then show ?case by (cases loaded) simp_all
next
  case (Cons k ks)
  from Cons.prems(2) obtain s where s: "loaded = JObj s" by (cases loaded) simp_all
  from Cons.prems(1) obtain t tv where t: "base = JObj t" "map_of t k = Some tv"
    "descend tv ks = Some v"
    by (cases base) (auto split: option.splits)
  from t(2) have own: "k \<noteq> ''__proto__'' \<or> map_of t k \<noteq> None" by simp
  show ?case
  proof (cases "map_of s k")
    case None
    with s t show ?thesis by (simp add: deepMerge_map_of[OF own])
  next
    case (Some sv)
    with Cons.prems(2) s have om: "omitted sv ks" by simp
    then have "isObject sv" by (cases sv; cases ks) simp_all
    with Some s t have "map_of (merge_keys (JObj t) s (map fst s) t) k = Some (deepMerge tv sv)"
      by (simp add: deepMerge_map_of[OF own])
    with Cons.IH[OF t(3) om] s t show ?thesis by simp
  qed
qed

text \<open>
  C4. After a load that parses \<^verbatim>\<open>{ llm: { model: 'custom' } }\<close> over the defaults,
  \<^verbatim>\<open>get('llm.model')\<close> is \<^verbatim>\<open>'custom'\<close> and \<^verbatim>\<open>get('llm.provider')\<close> is still
  \<^verbatim>\<open>'openai'\<close>. In general, after a successful load every path that the document in
  memory had through its nested mappings and that the loaded document omits still reads
  as before.
\<close>

theorem loadFromFile_merges_nested:
  "(read_and_parse e path = Inr custom_model \<longrightarrow>
      fst (loadFromFile e path (new_Config apiKey)) \<and>
      get (snd (loadFromFile e path (new_Config apiKey))) ''llm.model'' = Inr (JStr ''custom'') \<and>
      get (snd (loadFromFile e path (new_Config apiKey))) ''llm.provider'' = Inr (JStr ''openai'')) \<and>
   (read_and_parse e path = Inr loaded \<and>
    descend (config c) (split_on CHR ''.'' key) = Some v \<and>
    omitted loaded (split_on CHR ''.'' key) \<longrightarrow>
      fst (loadFromFile e path c) \<and> get (snd (loadFromFile e path c)) key = Inr v)"
proof -
  have 1: "fst (loadFromFile e path (new_Config apiKey)) \<and>
      get (snd (loadFromFile e path (new_Config apiKey))) ''llm.model'' = Inr (JStr ''custom'') \<and>
      get (snd (loadFromFile e path (new_Config apiKey))) ''llm.provider'' = Inr (JStr ''openai'')"
    if "read_and_parse e path = Inr custom_model"
    unfolding loadFromFile_success[OF that]
    by (simp add: get_def new_Config_def custom_model_def store_prop_def)
  have 2: "fst (loadFromFile e path c) \<and> get (snd (loadFromFile e path c)) key = Inr v"
    if "read_and_parse e path = Inr loaded"
      "descend (config c) (split_on CHR ''.'' key) = Some v"
      "omitted loaded (split_on CHR ''.'' key)"
    unfolding loadFromFile_success[OF that(1)]
    using descend_get_keys[OF omitted_preserved[OF that(2,3)]]
    by (simp add: get_def)
  from 1 2 show ?thesis by blast
qed

text \<open>The same load, and the path \<^verbatim>\<open>languages.go.priority\<close> that it omits.\<close>

theorem loadFromFile_merges_nested_witness:
  "read_and_parse (env_of ''.json'' custom_model) ''config.json'' = Inr custom_model \<and>
   fst (loadFromFile (env_of ''.json'' custom_model) ''config.json'' (new_Config JUndefined)) \<and>
   get (snd (loadFromFile (env_of ''.json'' custom_model) ''config.json'' (new_Config JUndefined)))
     ''llm.model'' = Inr (JStr ''custom'') \<and>
   get (snd (loadFromFile (env_of ''.json'' custom_model) ''config.json'' (new_Config JUndefined)))
     ''llm.provider'' = Inr (JStr ''openai'') \<and>
   descend (config (new_Config JUndefined)) (split_on CHR ''.'' ''languages.go.priority'')
     = Some (JNum 3) \<and>
   omitted custom_model (split_on CHR ''.'' ''languages.go.priority'') \<and>
   get (snd (loadFromFile (env_of ''.json'' custom_model) ''config.json'' (new_Config JUndefined)))
     ''languages.go.priority'' = Inr (JNum 3)"
proof -
  have r: "read_and_parse (env_of ''.json'' custom_model) ''config.json'' = Inr custom_model"
    by (simp add: read_and_parse_def env_of_def toLowerCase_def)
  have d: "descend (config (new_Config JUndefined))
             (split_on CHR ''.'' ''languages.go.priority'') = Some (JNum 3)"
    by (simp add: new_Config_def)
  have o: "omitted custom_model (split_on CHR ''.'' ''languages.go.priority'')"
    by (simp add: custom_model_def)
  note t = loadFromFile_merges_nested[of "env_of ''.json'' custom_model" "''config.json''"
      JUndefined custom_model "new_Config JUndefined" "''languages.go.priority''" "JNum 3"]
  from t r d o show ?thesis by blast
qed

text \<open>
  C7. \<^verbatim>\<open>loadFromFile\<close> returns a boolean for every file system, path and parser:
  whatever \<^verbatim>\<open>readFileSync\<close>, the parser or the suffix test throws is caught. It returns
  \<^verbatim>\<open>true\<close> exactly when the file was read and its suffix selected a parser that
  returned, and then the document is the deep merge of the loaded one into it. In every
  other case, an unreadable file, a parse error under either parser or an unsupported
  suffix, it returns \<^verbatim>\<open>false\<close> and the document is as it was.
\<close>

theorem loadFromFile_fails_without_change:
  "(fst (loadFromFile e path c) \<longleftrightarrow> (\<exists>loaded. read_and_parse e path = Inr loaded)) \<and>
   (\<not> fst (loadFromFile e path c) \<longrightarrow> snd (loadFromFile e path c) = c) \<and>
   (\<forall>err. readFileSync e path = Inl err \<longrightarrow> loadFromFile e path c = (False, c)) \<and>
   (\<forall>contents err. readFileSync e path = Inr contents \<and>
        toLowerCase (extname e path) = ''.json'' \<and> JSON_parse e contents = Inl err \<longrightarrow>
      loadFromFile e path c = (False, c)) \<and>
   (\<forall>contents err. readFileSync e path = Inr contents \<and>
        toLowerCase (extname e path) \<in> {''.yml'', ''.yaml''} \<and> yaml_parse e contents = Inl err \<longrightarrow>
      loadFromFile e path c = (False, c)) \<and>
   (\<forall>contents. readFileSync e path = Inr contents \<and>
        toLowerCase (extname e path) \<notin> {''.json'', ''.yml'', ''.yaml''} \<longrightarrow>
      loadFromFile e path c = (False, c)) \<and>
   (\<forall>loaded. read_and_parse e path = Inr loaded \<longrightarrow>
      loadFromFile e path c = (True, c\<lparr>config := deepMerge (config c) loaded\<rparr>))"
proof -
  have 1: "fst (loadFromFile e path c) \<longleftrightarrow> (\<exists>loaded. read_and_parse e path = Inr loaded)"
    by (simp add: loadFromFile_def load_try_def split: sum.splits)
  have 2: "\<not> fst (loadFromFile e path c) \<longrightarrow> snd (loadFromFile e path c) = c"
    by (simp add: loadFromFile_def load_try_def split: sum.splits)
  have 3: "\<forall>err. readFileSync e path = Inl err \<longrightarrow> loadFromFile e path c = (False, c)"
    by (simp add: loadFromFile_def load_try_def read_and_parse_def)
  have 4: "\<forall>contents err. readFileSync e path = Inr contents \<and>
        toLowerCase (extname e path) = ''.json'' \<and> JSON_parse e contents = Inl err \<longrightarrow>
      loadFromFile e path c = (False, c)"
    by (simp add: loadFromFile_def load_try_def read_and_parse_def)
  have 5: "\<forall>contents err. readFileSync e path = Inr contents \<and>
        toLowerCase (extname e path) \<in> {''.yml'', ''.yaml''} \<and> yaml_parse e contents = Inl err \<longrightarrow>
      loadFromFile e path c = (False, c)"
    by (auto simp: loadFromFile_def load_try_def read_and_parse_def)
  have 6: "\<forall>contents. readFileSync e path = Inr contents \<and>
        toLowerCase (extname e path) \<notin> {''.json'', ''.yml'', ''.yaml''} \<longrightarrow>
      loadFromFile e path c = (False, c)"
    by (simp add: loadFromFile_def load_try_def read_and_parse_def)
  have 7: "\<forall>loaded. read_and_parse e path = Inr loaded \<longrightarrow>
      loadFromFile e path c = (True, c\<lparr>config := deepMerge (config c) loaded\<rparr>)"
    by (simp add: loadFromFile_success)
  from 1 2 3 4 5 6 7 show ?thesis by blast
qed

text \<open>
  A file that cannot be read, one that does not parse, one with the suffix \<^verbatim>\<open>.TXT\<close>,
  and a successful load under the suffix \<^verbatim>\<open>.YAML\<close>.
\<close>

theorem loadFromFile_fails_without_change_witness:
  "readFileSync unreadable_env ''nonexistent.json'' = Inl (Error ''ENOENT'') \<and>
   loadFromFile unreadable_env ''nonexistent.json'' (new_Config JUndefined)
     = (False, new_Config JUndefined) \<and>
   readFileSync unparsable_env ''config.json'' = Inr ''contents'' \<and>
   toLowerCase (extname unparsable_env ''config.json'') = ''.json'' \<and>
   JSON_parse unparsable_env ''contents'' = Inl (Error ''Unexpected token'') \<and>
   loadFromFile unparsable_env ''config.json'' (new_Config JUndefined)
     = (False, new_Config JUndefined) \<and>
   readFileSync (env_of ''.TXT'' custom_model) ''config.TXT'' = Inr ''contents'' \<and>
   toLowerCase (extname (env_of ''.TXT'' custom_model) ''config.TXT'')
     \<notin> {''.json'', ''.yml'', ''.yaml''} \<and>
   loadFromFile (env_of ''.TXT'' custom_model) ''config.TXT'' (new_Config JUndefined)
     = (False, new_Config JUndefined) \<and>
   read_and_parse (env_of ''.YAML'' custom_model) ''config.YAML'' = Inr custom_model \<and>
   fst (loadFromFile (env_of ''.YAML'' custom_model) ''config.YAML'' (new_Config JUndefined))"
proof -
  have a: "readFileSync unreadable_env ''nonexistent.json'' = Inl (Error ''ENOENT'')"
    by (simp add: unreadable_env_def env_of_def)
  have b: "readFileSync unparsable_env ''config.json'' = Inr ''contents'' \<and>
      toLowerCase (extname unparsable_env ''config.json'') = ''.json'' \<and>
      JSON_parse unparsable_env ''contents'' = Inl (Error ''Unexpected token'')"
    by (simp add: unparsable_env_def env_of_def toLowerCase_def)
  have c: "readFileSync (env_of ''.TXT'' custom_model) ''config.TXT'' = Inr ''contents'' \<and>
      toLowerCase (extname (env_of ''.TXT'' custom_model) ''config.TXT'')
        \<notin> {''.json'', ''.yml'', ''.yaml''}"
    by (simp add: env_of_def toLowerCase_def)
  have d: "read_and_parse (env_of ''.YAML'' custom_model) ''config.YAML'' = Inr custom_model"
    by (simp add: read_and_parse_def env_of_def toLowerCase_def)
  have 1: "loadFromFile unreadable_env ''nonexistent.json'' (new_Config JUndefined)
     = (False, new_Config JUndefined)"
    using loadFromFile_fails_without_change[of unreadable_env "''nonexistent.json''"
        "new_Config JUndefined"] a by blast
  have 2: "loadFromFile unparsable_env ''config.json'' (new_Config JUndefined)
     = (False, new_Config JUndefined)"
    using loadFromFile_fails_without_change[of unparsable_env "''config.json''"
        "new_Config JUndefined"] b by blast
  have 3: "loadFromFile (env_of ''.TXT'' custom_model) ''config.TXT'' (new_Config JUndefined)
     = (False, new_Config JUndefined)"
    using loadFromFile_fails_without_change[of "env_of ''.TXT'' custom_model" "''config.TXT''"
        "new_Config JUndefined"] c by blast
  have 4: "fst (loadFromFile (env_of ''.YAML'' custom_model) ''config.YAML''
      (new_Config JUndefined))"
    using loadFromFile_fails_without_change[of "env_of ''.YAML'' custom_model" "''config.YAML''"
        "new_Config JUndefined"] d by blast
  from a b c d 1 2 3 4 show ?thesis by blast
qed

text \<open>
  The copy of \<^verbatim>\<open>loadFromFile\<close> that spreads the loaded document over the one in memory
  replaces the whole section \<^verbatim>\<open>llm\<close>: after the same load \<^verbatim>\<open>llm.provider\<close> is gone.
\<close>

lemma loadFromFile_spread_replaces_section:
  "read_and_parse e path = Inr custom_model \<Longrightarrow>
   get (snd (loadFromFile_spread e path (new_Config apiKey))) ''llm.model'' = Inr (JStr ''custom'') \<and>
   get (snd (loadFromFile_spread e path (new_Config apiKey))) ''llm.provider'' = Inr JUndefined"
  by (simp add: loadFromFile_spread_def spread_over_def get_def new_Config_def custom_model_def
      Object_prototype_def)

end
